theory Spec2Isabelle
  imports Complex_Main
begin

section \<open>The values the fetcher handles\<close>

text \<open>
  \<^verbatim>\<open>status_fetcher.py\<close> reads two JSON documents over HTTP and rewrites them into
  one snapshot. The bodies are whatever \<^verbatim>\<open>response.json()\<close> returns, so the model
  keeps every shape a JSON document can have. A Python \<^verbatim>\<open>dict\<close> is an association
  list in insertion order (its keys are distinct when it comes from the parser);
  a number is an \<^verbatim>\<open>int\<close> or a \<^verbatim>\<open>float\<close>. Strings are taken over the ASCII range.
\<close>

datatype pyfloat = Finite rat | PosInf | NegInf | NaN

datatype json =
    JNull
  | JBool bool
  | JInt int
  | JFloat pyfloat
  | JStr string
  | JArr "json list"
  | JObj "(string \<times> json) list"

text \<open>
  The three causes the spec names for a failed fetch are subclasses of
  \<^verbatim>\<open>requests.exceptions.RequestException\<close>; the other exceptions are the built-in
  ones that the operations of the script can raise on a body of unexpected shape.
\<close>

datatype request_error = ConnectionError | Timeout | HTTPError nat

datatype py_error =
    RequestException request_error
  | KeyError string
  | TypeError
  | AttributeError
  | ValueError

text \<open>The outcome of \<^verbatim>\<open>requests.get\<close>, \<^verbatim>\<open>raise_for_status\<close> and \<^verbatim>\<open>json\<close> for one URL.\<close>

type_synonym http = "string \<Rightarrow> request_error + json"

record datetime =
  year :: nat
  month :: nat
  day :: nat
  hour :: nat
  minute :: nat
  second :: nat

record incident =
  title :: json
  status :: string
  time :: string
  new :: bool

record region =
  uf :: string
  status :: string

section \<open>Python's operations on parsed JSON\<close>

text \<open>An exception ends the computation; otherwise the next statement runs.\<close>

definition and_then :: "'e + 'a \<Rightarrow> ('a \<Rightarrow> 'e + 'b) \<Rightarrow> 'e + 'b" where
  "and_then m f = (case m of Inl e \<Rightarrow> Inl e | Inr x \<Rightarrow> f x)"

text \<open>\<^verbatim>\<open>v[k]\<close> with a string key: only a dict can be subscripted by a string.\<close>

fun getitem :: "json \<Rightarrow> string \<Rightarrow> py_error + json" where
  "getitem (JObj kvs) k = (case map_of kvs k of None \<Rightarrow> Inl (KeyError k) | Some v \<Rightarrow> Inr v)"
| "getitem v k = Inl TypeError"

text \<open>\<^verbatim>\<open>v.get(k, d)\<close>: only a dict has the method.\<close>

fun get_default :: "json \<Rightarrow> string \<Rightarrow> json \<Rightarrow> py_error + json" where
  "get_default (JObj kvs) k d = Inr (case map_of kvs k of None \<Rightarrow> d | Some v \<Rightarrow> v)"
| "get_default v k d = Inl AttributeError"

text \<open>
  \<^verbatim>\<open>for x in v\<close>: a list yields its elements, a dict its keys, a string its
  characters; nothing else can be iterated.
\<close>

fun iter :: "json \<Rightarrow> py_error + json list" where
  "iter (JArr xs) = Inr xs"
| "iter (JObj kvs) = Inr (map (\<lambda>kv. JStr (fst kv)) kvs)"
| "iter (JStr s) = Inr (map (\<lambda>c. JStr [c]) s)"
| "iter v = Inl TypeError"

text \<open>\<^verbatim>\<open>v.items()\<close>: only a dict has the method.\<close>

fun items :: "json \<Rightarrow> py_error + (string \<times> json) list" where
  "items (JObj kvs) = Inr kvs"
| "items v = Inl AttributeError"

text \<open>The truth value of a parsed JSON value in a condition.\<close>

fun truthy :: "json \<Rightarrow> bool" where
  "truthy JNull = False"
| "truthy (JBool b) = b"
| "truthy (JInt i) = (i \<noteq> 0)"
| "truthy (JFloat (Finite q)) = (q \<noteq> 0)"
| "truthy (JFloat f) = True"
| "truthy (JStr s) = (s \<noteq> [])"
| "truthy (JArr xs) = (xs \<noteq> [])"
| "truthy (JObj kvs) = (kvs \<noteq> [])"

section \<open>Configuration tables\<close>

definition STATUS_PAGES :: "(string \<times> string) list" where
  "STATUS_PAGES =
    [(''AnyMarket'', ''https://status.anymarket.com.br''),
     (''PagSeguro'', ''https://status.pagbank.com.br''),
     (''Pagar.me'', ''https://status.pagar.me'')]"

definition STATUS_MAP :: "(string \<times> string) list" where
  "STATUS_MAP =
    [(''operational'', ''operational''),
     (''degraded_performance'', ''degraded''),
     (''partial_outage'', ''degraded''),
     (''major_outage'', ''investigating''),
     (''under_maintenance'', ''scheduled''),
     (''investigating'', ''investigating'')]"

text \<open>
  \<^verbatim>\<open>STATUS_MAP.get(v, d)\<close>: the key is hashed first, so a list or a dict raises
  \<^verbatim>\<open>TypeError\<close>; every key of the table is a string, so no other value is found.
\<close>

fun STATUS_MAP_get :: "json \<Rightarrow> string \<Rightarrow> py_error + string" where
  "STATUS_MAP_get (JStr s) d = Inr (case map_of STATUS_MAP s of None \<Rightarrow> d | Some v \<Rightarrow> v)"
| "STATUS_MAP_get (JArr xs) d = Inl TypeError"
| "STATUS_MAP_get (JObj kvs) d = Inl TypeError"
| "STATUS_MAP_get v d = Inr d"

section \<open>Timestamps\<close>

text \<open>
  \<^verbatim>\<open>datetime.strptime(s, '%Y-%m-%dT%H:%M:%S')\<close> compiles the format into a regular
  expression, one group of alternatives per directive, matches it at the start
  of the string (case-insensitively), and refuses a match that leaves text
  behind. An alternative is a sequence of character classes; alternatives are
  tried in order, and a later group that fails sends the matcher back to the
  next alternative of an earlier one.
\<close>

type_synonym alternative = "string list"

fun match_alt :: "alternative \<Rightarrow> string \<Rightarrow> (string \<times> string) option" where
  "match_alt [] s = Some ([], s)"
| "match_alt (cls # rest) [] = None"
| "match_alt (cls # rest) (c # s) =
     (if c \<in> set cls
      then (case match_alt rest s of None \<Rightarrow> None | Some (txt, r) \<Rightarrow> Some (c # txt, r))
      else None)"

fun first_some :: "'a option list \<Rightarrow> 'a option" where
  "first_some [] = None"
| "first_some (None # xs) = first_some xs"
| "first_some (Some x # xs) = Some x"

fun re_match :: "alternative list list \<Rightarrow> string \<Rightarrow> (string list \<times> string) option" where
  "re_match [] s = Some ([], s)"
| "re_match (g # gs) s =
     first_some (map (\<lambda>alt.
       case match_alt alt s of
         None \<Rightarrow> None
       | Some (txt, r) \<Rightarrow>
           (case re_match gs r of None \<Rightarrow> None | Some (caps, r') \<Rightarrow> Some (txt # caps, r'))) g)"

definition digits :: string where
  "digits = ''0123456789''"

definition nonzero :: string where
  "nonzero = ''123456789''"

definition lit :: "string \<Rightarrow> alternative list" where
  "lit cls = [[cls]]"

definition re_Y :: "alternative list" where
  "re_Y = [[digits, digits, digits, digits]]"

definition re_m :: "alternative list" where
  "re_m = [[''1'', ''012''], [''0'', nonzero], [nonzero]]"

definition re_d :: "alternative list" where
  "re_d = [[''3'', ''01''], [''12'', digits], [''0'', nonzero], [nonzero], ['' '', nonzero]]"

definition re_H :: "alternative list" where
  "re_H = [[''2'', ''0123''], [''01'', digits], [digits]]"

definition re_M :: "alternative list" where
  "re_M = [[''012345'', digits], [digits]]"

definition re_S :: "alternative list" where
  "re_S = [[''6'', ''01''], [''012345'', digits], [digits]]"

definition format_regex :: "alternative list list" where
  "format_regex =
     [re_Y, lit ''-'', re_m, lit ''-'', re_d, lit ''Tt'', re_H, lit '':'', re_M, lit '':'', re_S]"

text \<open>\<^verbatim>\<open>int(s)\<close> on a matched field: decimal digits, surrounding blanks ignored.\<close>

definition digit_val :: "char \<Rightarrow> nat" where
  "digit_val c = of_char c - 48"

definition int_of :: "string \<Rightarrow> nat" where
  "int_of s = foldl (\<lambda>n c. 10 * n + digit_val c) 0 (filter (\<lambda>c. c \<noteq> CHR '' '') s)"

definition is_leap :: "nat \<Rightarrow> bool" where
  "is_leap y = (y mod 4 = 0 \<and> (y mod 100 \<noteq> 0 \<or> y mod 400 = 0))"

definition days_in_month :: "nat \<Rightarrow> nat \<Rightarrow> nat" where
  "days_in_month y m =
     (if m = 2 then (if is_leap y then 29 else 28)
      else if m \<in> {4, 6, 9, 11} then 30 else 31)"

text \<open>
  The constructor of \<^verbatim>\<open>datetime\<close> checks the ranges the regular expression
  leaves open: year 0, a day the month does not have, second 60 or 61.
\<close>

definition strptime :: "string \<Rightarrow> py_error + datetime" where
  "strptime s =
     (case re_match format_regex s of
        Some ([Y, _, m, _, d, _, H, _, M, _, S], r) \<Rightarrow>
          (if r \<noteq> [] then Inl ValueError
           else if int_of Y < 1 \<or> days_in_month (int_of Y) (int_of m) < int_of d \<or> 59 < int_of S
           then Inl ValueError
           else Inr \<lparr>year = int_of Y, month = int_of m, day = int_of d,
                     hour = int_of H, minute = int_of M, second = int_of S\<rparr>)
      | _ \<Rightarrow> Inl ValueError)"

text \<open>\<^verbatim>\<open>'%02d'\<close>: decimal, padded with a zero to two characters.\<close>

definition digit_char :: "nat \<Rightarrow> char" where
  "digit_char n = char_of (48 + n)"

fun decimal :: "nat \<Rightarrow> string" where
  "decimal n = (if n < 10 then [digit_char n] else decimal (n div 10) @ [digit_char (n mod 10)])"

definition pad2 :: "nat \<Rightarrow> string" where
  "pad2 n = (if n < 10 then CHR ''0'' # decimal n else decimal n)"

text \<open>\<^verbatim>\<open>dt.strftime('%d/%m %H:%M')\<close>\<close>

definition strftime :: "datetime \<Rightarrow> string" where
  "strftime dt = pad2 (day dt) @ ''/'' @ pad2 (month dt) @ '' '' @ pad2 (hour dt) @ '':'' @ pad2 (minute dt)"

text \<open>\<^verbatim>\<open>s.split('.')[0]\<close>: the text before the first dot, the whole string without one.\<close>

definition split_dot_first :: "string \<Rightarrow> string" where
  "split_dot_first s = takeWhile (\<lambda>c. c \<noteq> CHR ''.'') s"

text \<open>
  \<^verbatim>\<open>datetime.strptime(v.split('.')[0], '%Y-%m-%dT%H:%M:%S').strftime('%d/%m %H:%M')\<close>:
  a value that is not a string has no \<^verbatim>\<open>split\<close>.
\<close>

fun format_time :: "json \<Rightarrow> py_error + string" where
  "format_time (JStr s) =
     (case strptime (split_dot_first s) of Inl e \<Rightarrow> Inl e | Inr dt \<Rightarrow> Inr (strftime dt))"
| "format_time v = Inl AttributeError"

section \<open>The status-page client\<close>

definition api_url :: "string \<Rightarrow> string" where
  "api_url base_url = base_url @ ''/api/v2/summary.json''"

definition active_statuses :: "json list" where
  "active_statuses =
     [JStr ''investigating'', JStr ''identified'', JStr ''monitoring'', JStr ''in_progress'']"

definition maintenance_statuses :: "json list" where
  "maintenance_statuses = [JStr ''scheduled'', JStr ''in_progress'']"

text \<open>
  The first loop of \<^verbatim>\<open>fetch_status_page_data\<close>. The entries of the record are
  evaluated in the order they are written, so the first operation that fails
  decides the exception.
\<close>

fun incidents_loop :: "json list \<Rightarrow> incident list \<Rightarrow> py_error + incident list" where
  "incidents_loop [] incidents = Inr incidents"
| "incidents_loop (incident # rest) incidents =
     and_then (getitem incident ''status'') (\<lambda>st.
       if st \<in> set active_statuses then
         and_then (getitem incident ''name'') (\<lambda>name.
         and_then (STATUS_MAP_get st ''investigating'') (\<lambda>mapped.
         and_then (getitem incident ''created_at'') (\<lambda>created_at.
         and_then (format_time created_at) (\<lambda>t.
           incidents_loop rest
             (incidents @ [\<lparr>title = name, incident.status = mapped, time = t, new = True\<rparr>])))))
       else incidents_loop rest incidents)"

text \<open>The second loop, over the scheduled maintenances.\<close>

fun maintenances_loop :: "json list \<Rightarrow> incident list \<Rightarrow> py_error + incident list" where
  "maintenances_loop [] incidents = Inr incidents"
| "maintenances_loop (maintenance # rest) incidents =
     and_then (getitem maintenance ''status'') (\<lambda>st.
       if st \<in> set maintenance_statuses then
         and_then (getitem maintenance ''name'') (\<lambda>name.
         and_then (getitem maintenance ''scheduled_for'') (\<lambda>scheduled_for.
         and_then (format_time scheduled_for) (\<lambda>t.
           maintenances_loop rest
             (incidents @
                [\<lparr>title = name, incident.status = ''scheduled'', time = t, new = True\<rparr>]))))
       else maintenances_loop rest incidents)"

definition fetch_error_incident :: "datetime \<Rightarrow> incident" where
  "fetch_error_incident now =
     \<lparr>title = JStr ''Erro ao carregar status. Dados podem estar desatualizados.'',
      incident.status = ''degraded'', time = strftime now, new = True\<rparr>"

text \<open>The body of the \<^verbatim>\<open>try\<close> block once the response has been parsed.\<close>

definition summary_incidents :: "datetime \<Rightarrow> json \<Rightarrow> py_error + incident list" where
  "summary_incidents now data =
     and_then (getitem data ''status'') (\<lambda>st.
     and_then (getitem st ''indicator'') (\<lambda>status_indicator.
     and_then (STATUS_MAP_get status_indicator ''operational'') (\<lambda>overall_status.
     and_then (get_default data ''incidents'' (JArr [])) (\<lambda>incs.
     and_then (iter incs) (\<lambda>inc_list.
     and_then (incidents_loop inc_list []) (\<lambda>active.
     and_then (get_default data ''scheduled_maintenances'' (JArr [])) (\<lambda>ms.
     and_then (iter ms) (\<lambda>m_list.
     and_then (maintenances_loop m_list active) (\<lambda>incidents.
       if incidents = [] then
         and_then (getitem st ''description'') (\<lambda>description.
           Inr [\<lparr>title = description, incident.status = overall_status,
                 time = strftime now, new = False\<rparr>])
       else Inr incidents)))))))))"

text \<open>
  \<^verbatim>\<open>fetch_status_page_data(base_url)\<close>. The network is the argument \<open>http_get\<close> and
  \<open>now\<close> is what \<^verbatim>\<open>datetime.now()\<close> returns during the call (it is read at most
  once). The \<^verbatim>\<open>except\<close> clause catches the request errors only: every other
  exception leaves the function. The messages printed are not modelled.
\<close>

definition fetch_status_page_data :: "http \<Rightarrow> datetime \<Rightarrow> string \<Rightarrow> py_error + incident list" where
  "fetch_status_page_data http_get now base_url =
     (case http_get (api_url base_url) of
        Inl e \<Rightarrow> Inr [fetch_error_incident now]
      | Inr data \<Rightarrow> summary_incidents now data)"

section \<open>The regional status client\<close>

definition sefaz_api_url :: string where
  "sefaz_api_url = ''https://monitorsefaz.webmaniabr.com/api/v1/status''"

fun states_loop :: "(string \<times> json) list \<Rightarrow> region list \<Rightarrow> py_error + region list" where
  "states_loop [] states_data = Inr states_data"
| "states_loop ((k, status_info) # rest) states_data =
     and_then (get_default status_info ''status'' JNull) (\<lambda>flag.
       states_loop rest
         (states_data @ [\<lparr>uf = k, region.status = (if truthy flag then ''up'' else ''slow'')\<rparr>]))"

definition up :: "string \<Rightarrow> region" where
  "up k = \<lparr>uf = k, region.status = ''up''\<rparr>"

definition slow :: "string \<Rightarrow> region" where
  "slow k = \<lparr>uf = k, region.status = ''slow''\<rparr>"

definition sefaz_fallback :: "region list" where
  "sefaz_fallback =
     [up ''AC'', up ''AL'', up ''AP'', up ''AM'',
      up ''BA'', slow ''CE'', up ''DF'', up ''ES'',
      up ''GO'', up ''MA'', up ''MT'', up ''MS'',
      up ''MG'', up ''PA'', up ''PB'', up ''PR'',
      up ''PE'', up ''PI'', up ''RJ'', up ''RN'',
      up ''RS'', up ''RO'', up ''RR'', up ''SC'',
      up ''SP'', up ''SE'', up ''TO'']"

text \<open>\<^verbatim>\<open>fetch_sefaz_status()\<close>; the request header has no part in the result.\<close>

definition fetch_sefaz_status :: "http \<Rightarrow> py_error + region list" where
  "fetch_sefaz_status http_get =
     (case http_get sefaz_api_url of
        Inl e \<Rightarrow> Inr sefaz_fallback
      | Inr data \<Rightarrow> and_then (items data) (\<lambda>kvs. states_loop kvs []))"

section \<open>The snapshot writer\<close>

text \<open>\<^verbatim>\<open>d[k] = v\<close>: a key already present keeps its place, a new one goes last.\<close>

fun dict_set :: "(string \<times> 'v) list \<Rightarrow> string \<Rightarrow> 'v \<Rightarrow> (string \<times> 'v) list" where
  "dict_set [] k v = [(k, v)]"
| "dict_set ((k', v') # d) k v = (if k' = k then (k, v) # d else (k', v') # dict_set d k v)"

datatype snapshot_value =
    Providers "(string \<times> incident list) list"
  | Regions "region list"

type_synonym snapshot = "(string \<times> snapshot_value) list"

text \<open>
  What \<^verbatim>\<open>main\<close> reads from outside: the network, and the clock during the call
  made for each base URL.
\<close>

record world =
  http_get :: http
  clock :: "string \<Rightarrow> datetime"

fun real_data_loop ::
  "world \<Rightarrow> (string \<times> string) list \<Rightarrow> (string \<times> incident list) list
     \<Rightarrow> py_error + (string \<times> incident list) list" where
  "real_data_loop w [] real_data = Inr real_data"
| "real_data_loop w ((name, url) # rest) real_data =
     and_then (fetch_status_page_data (http_get w) (clock w url) url) (\<lambda>incidents.
       real_data_loop w rest (dict_set real_data name incidents))"

text \<open>Steps 1 to 3 of \<^verbatim>\<open>main\<close>: the document that is then written.\<close>

definition output_data :: "world \<Rightarrow> py_error + snapshot" where
  "output_data w =
     and_then (real_data_loop w STATUS_PAGES []) (\<lambda>real_data.
     and_then (fetch_sefaz_status (http_get w)) (\<lambda>states_data.
       Inr [(''REAL_DATA'', Providers real_data), (''STATES_DATA'', Regions states_data)]))"

definition output_path :: string where
  "output_path = ''/home/ubuntu/real_time_data.json''"

text \<open>
  \<^verbatim>\<open>main()\<close>: the file system is a map from paths to documents, and the file is
  replaced as a whole. The JSON text of the document is not modelled.
\<close>

definition main :: "world \<Rightarrow> (string \<rightharpoonup> snapshot) \<Rightarrow> py_error + (string \<rightharpoonup> snapshot)" where
  "main w files = and_then (output_data w) (\<lambda>doc. Inr (files(output_path \<mapsto> doc)))"

section \<open>Specification of the regional records\<close>

text \<open>
  The spec's words for one entry of the regional response: the key is the region
  code; a truthy health flag gives \<^verbatim>\<open>up\<close>, a falsy or missing one \<^verbatim>\<open>slow\<close>.
\<close>

definition region_record :: "string \<times> json \<Rightarrow> region" where
  "region_record kv =
     \<lparr>uf = fst kv,
      region.status =
        (case snd kv of
           JObj info \<Rightarrow>
             (case map_of info ''status'' of
                None \<Rightarrow> ''slow''
              | Some flag \<Rightarrow> if truthy flag then ''up'' else ''slow'')
         | _ \<Rightarrow> ''slow'')\<rparr>"

section \<open>Networks, clocks and bodies of the examples\<close>

text \<open>A network that answers every URL with the same body, and one that answers none.\<close>

definition serve :: "json \<Rightarrow> http" where
  "serve body url = Inr body"

definition unreachable :: http where
  "unreachable url = Inl ConnectionError"

text \<open>A network given by a table of URLs; a URL outside the table cannot be reached.\<close>

definition route :: "(string \<times> (request_error + json)) list \<Rightarrow> http" where
  "route table url = (case map_of table url of None \<Rightarrow> Inl ConnectionError | Some r \<Rightarrow> r)"

definition new_year :: datetime where
  "new_year = \<lparr>year = 2025, month = 1, day = 1, hour = 0, minute = 5, second = 9\<rparr>"

definition fixed_clock :: "datetime \<Rightarrow> string \<Rightarrow> datetime" where
  "fixed_clock t url = t"

text \<open>The summary of the spec's first example.\<close>

definition outage_summary :: json where
  "outage_summary =
     JObj [(''status'',
              JObj [(''indicator'', JStr ''major_outage''), (''description'', JStr ''X down'')]),
           (''incidents'', JArr []),
           (''scheduled_maintenances'', JArr [])]"

text \<open>A summary with the incident of the spec's second example, under any name.\<close>

definition identified_summary :: "json \<Rightarrow> json" where
  "identified_summary name =
     JObj [(''status'',
              JObj [(''indicator'', JStr ''minor''),
                    (''description'', JStr ''Minor Service Outage'')]),
           (''incidents'',
              JArr [JObj [(''name'', name), (''status'', JStr ''identified''),
                          (''created_at'', JStr ''2024-01-02T03:04:05.000Z'')]]),
           (''scheduled_maintenances'', JArr [])]"

text \<open>The same shapes with the timestamp left open.\<close>

definition incident_at :: "string \<Rightarrow> json" where
  "incident_at stamp =
     JObj [(''status'',
              JObj [(''indicator'', JStr ''minor''),
                    (''description'', JStr ''Minor Service Outage'')]),
           (''incidents'',
              JArr [JObj [(''name'', JStr ''API errors''), (''status'', JStr ''identified''),
                          (''created_at'', JStr stamp)]]),
           (''scheduled_maintenances'', JArr [])]"

definition maintenance_at :: "string \<Rightarrow> json" where
  "maintenance_at stamp =
     JObj [(''status'',
              JObj [(''indicator'', JStr ''none''),
                    (''description'', JStr ''All Systems Operational'')]),
           (''incidents'', JArr []),
           (''scheduled_maintenances'',
              JArr [JObj [(''name'', JStr ''Database upgrade''), (''status'', JStr ''scheduled''),
                          (''scheduled_for'', JStr stamp)]])]"

text \<open>Three incidents, of which the second is over.\<close>

definition mixed_incidents :: "json list" where
  "mixed_incidents =
     [JObj [(''name'', JStr ''Checkout slow''), (''status'', JStr ''monitoring''),
            (''created_at'', JStr ''2024-01-02T03:04:05.000Z'')],
      JObj [(''name'', JStr ''Login errors''), (''status'', JStr ''resolved''),
            (''created_at'', JStr ''2024-01-02T03:04:05.000Z'')],
      JObj [(''name'', JStr ''Webhook delays''), (''status'', JStr ''in_progress''),
            (''created_at'', JStr ''2024-01-02T03:04:05.000Z'')]]"

text \<open>A regional response: a true flag, a false one, a missing one, a number.\<close>

definition sefaz_body :: json where
  "sefaz_body =
     JObj [(''SP'', JObj [(''status'', JBool True)]),
           (''AC'', JObj [(''status'', JBool False)]),
           (''RJ'', JObj []),
           (''BA'', JObj [(''status'', JInt 1)])]"

text \<open>One provider answers, one times out, one answers 503; the regional monitor answers.\<close>

definition partly_down :: world where
  "partly_down =
     \<lparr>http_get = route
        [(''https://status.anymarket.com.br/api/v2/summary.json'', Inr outage_summary),
         (''https://status.pagbank.com.br/api/v2/summary.json'', Inl Timeout),
         (''https://status.pagar.me/api/v2/summary.json'', Inl (HTTPError 503)),
         (''https://monitorsefaz.webmaniabr.com/api/v1/status'', Inr sefaz_body)],
      clock = fixed_clock new_year\<rparr>"

text \<open>The exceptions the \<^verbatim>\<open>except\<close> clauses catch.\<close>

fun is_request_error :: "py_error \<Rightarrow> bool" where
  "is_request_error (RequestException e) = True"
| "is_request_error e = False"

section \<open>Sequencing\<close>

lemma and_then_simps [simp]:
  "and_then (Inl e) f = Inl e"
  "and_then (Inr x) f = f x"
  by (simp_all add: and_then_def)

lemma and_then_Inr_iff: "and_then m f = Inr y \<longleftrightarrow> (\<exists>x. m = Inr x \<and> f x = Inr y)"
  by (cases m) simp_all

lemma and_then_Inl_iff:
  "and_then m f = Inl e \<longleftrightarrow> (m = Inl e \<or> (\<exists>x. m = Inr x \<and> f x = Inl e))"
  by (cases m) simp_all

section \<open>No operation on the body raises a request error\<close>

lemma getitem_local: "getitem v k = Inl e \<Longrightarrow> \<not> is_request_error e"
  by (cases v) (auto split: option.splits)

lemma get_default_local: "get_default v k d = Inl e \<Longrightarrow> \<not> is_request_error e"
  by (cases v) auto

lemma iter_local: "iter v = Inl e \<Longrightarrow> \<not> is_request_error e"
  by (cases v) auto

lemma STATUS_MAP_get_local: "STATUS_MAP_get v d = Inl e \<Longrightarrow> \<not> is_request_error e"
  by (cases v) auto

lemma strptime_ValueError: "strptime s = Inl e \<Longrightarrow> e = ValueError"
  by (auto simp: strptime_def split: option.splits list.splits if_splits prod.splits)

lemma format_time_local: "format_time v = Inl e \<Longrightarrow> \<not> is_request_error e"
  by (cases v) (auto split: sum.splits dest: strptime_ValueError)

lemma incidents_loop_local: "incidents_loop xs acc = Inl e \<Longrightarrow> \<not> is_request_error e"
proof (induction xs arbitrary: acc)
  case Nil
  then show ?case by simp
next
  case (Cons x xs)
  then show ?case
    by (auto simp: and_then_Inl_iff split: if_splits
        dest: getitem_local STATUS_MAP_get_local format_time_local)
qed

lemma maintenances_loop_local: "maintenances_loop xs acc = Inl e \<Longrightarrow> \<not> is_request_error e"
proof (induction xs arbitrary: acc)
  case Nil
  then show ?case by simp
next
  case (Cons x xs)
  then show ?case
    by (auto simp: and_then_Inl_iff split: if_splits dest: getitem_local format_time_local)
qed

lemma summary_incidents_local: "summary_incidents now data = Inl e \<Longrightarrow> \<not> is_request_error e"
  unfolding summary_incidents_def
  by (auto simp: and_then_Inl_iff split: if_splits
      dest: getitem_local STATUS_MAP_get_local get_default_local iter_local
        incidents_loop_local maintenances_loop_local)

lemma summary_incidents_nonempty: "summary_incidents now data \<noteq> Inr []"
  unfolding summary_incidents_def
  by (auto simp: and_then_Inr_iff split: if_splits)

section \<open>What the two loops append\<close>

lemma active_mapped:
  "st \<in> set active_statuses \<Longrightarrow> STATUS_MAP_get st ''investigating'' = Inr ''investigating''"
  by (auto simp: active_statuses_def STATUS_MAP_def)

lemma incidents_loop_appends:
  "incidents_loop xs acc = Inr ys \<Longrightarrow>
     \<exists>zs. ys = acc @ zs \<and> (\<forall>r \<in> set zs. incident.status r = ''investigating'' \<and> new r)"
proof (induction xs arbitrary: acc)
  case Nil
  then show ?case by simp
next
  case (Cons x xs)
  from Cons.prems obtain st where
    body: "(if st \<in> set active_statuses then
         and_then (getitem x ''name'') (\<lambda>name.
         and_then (STATUS_MAP_get st ''investigating'') (\<lambda>mapped.
         and_then (getitem x ''created_at'') (\<lambda>created_at.
         and_then (format_time created_at) (\<lambda>t.
           incidents_loop xs
             (acc @ [\<lparr>title = name, incident.status = mapped, time = t, new = True\<rparr>])))))
       else incidents_loop xs acc) = Inr ys"
    by (auto simp: and_then_Inr_iff)
  show ?case
  proof (cases "st \<in> set active_statuses")
    case True
    with body obtain name t where
      rec: "incidents_loop xs
              (acc @ [\<lparr>title = name, incident.status = ''investigating'', time = t, new = True\<rparr>])
            = Inr ys"
      by (auto simp: and_then_Inr_iff active_mapped)
    from Cons.IH [OF rec] show ?thesis by auto
  next
    case False
    with body have "incidents_loop xs acc = Inr ys" by simp
    from Cons.IH [OF this] show ?thesis .
  qed
qed

lemma maintenances_loop_appends:
  "maintenances_loop xs acc = Inr ys \<Longrightarrow>
     \<exists>zs. ys = acc @ zs \<and> (\<forall>r \<in> set zs. incident.status r = ''scheduled'' \<and> new r)"
proof (induction xs arbitrary: acc)
  case Nil
  then show ?case by simp
next
  case (Cons x xs)
  from Cons.prems obtain st where
    body: "(if st \<in> set maintenance_statuses then
         and_then (getitem x ''name'') (\<lambda>name.
         and_then (getitem x ''scheduled_for'') (\<lambda>scheduled_for.
         and_then (format_time scheduled_for) (\<lambda>t.
           maintenances_loop xs
             (acc @ [\<lparr>title = name, incident.status = ''scheduled'', time = t, new = True\<rparr>]))))
       else maintenances_loop xs acc) = Inr ys"
    by (auto simp: and_then_Inr_iff)
  show ?case
  proof (cases "st \<in> set maintenance_statuses")
    case True
    with body obtain name t where
      rec: "maintenances_loop xs
              (acc @ [\<lparr>title = name, incident.status = ''scheduled'', time = t, new = True\<rparr>])
            = Inr ys"
      by (auto simp: and_then_Inr_iff)
    from Cons.IH [OF rec] show ?thesis by auto
  next
    case False
    with body have "maintenances_loop xs acc = Inr ys" by simp
    from Cons.IH [OF this] show ?thesis .
  qed
qed

lemma incidents_loop_none_kept:
  "\<forall>x \<in> set xs. \<exists>s. getitem x ''status'' = Inr s \<and> s \<notin> set active_statuses \<Longrightarrow>
     incidents_loop xs acc = Inr acc"
  by (induction xs arbitrary: acc) auto

lemma maintenances_loop_none_kept:
  "\<forall>x \<in> set xs. \<exists>s. getitem x ''status'' = Inr s \<and> s \<notin> set maintenance_statuses \<Longrightarrow>
     maintenances_loop xs acc = Inr acc"
  by (induction xs arbitrary: acc) auto

lemma overall_status_closed:
  "STATUS_MAP_get v ''operational'' = Inr s \<Longrightarrow>
     s \<in> {''operational'', ''degraded'', ''investigating'', ''scheduled''}"
  by (cases v) (auto simp: STATUS_MAP_def split: if_splits)

lemma summary_incidents_closed:
  assumes "summary_incidents now data = Inr xs" and "r \<in> set xs"
  shows "incident.status r \<in> {''operational'', ''degraded'', ''investigating'', ''scheduled''}"
proof -
  from assms(1) obtain st indicator overall inc_list active m_list incidents where
    ov: "STATUS_MAP_get indicator ''operational'' = Inr overall"
    and a: "incidents_loop inc_list [] = Inr active"
    and m: "maintenances_loop m_list active = Inr incidents"
    and fin: "(if incidents = [] then
         and_then (getitem st ''description'') (\<lambda>description.
           Inr [\<lparr>title = description, incident.status = overall,
                 time = strftime now, new = False\<rparr>])
       else Inr incidents) = Inr xs"
    unfolding summary_incidents_def by (auto simp: and_then_Inr_iff)
  from incidents_loop_appends [OF a]
  have act: "\<forall>r \<in> set active. incident.status r = ''investigating''"
    by auto
  from maintenances_loop_appends [OF m] obtain zs where
    zs: "incidents = active @ zs" "\<forall>r \<in> set zs. incident.status r = ''scheduled''"
    by auto
  show ?thesis
  proof (cases "incidents = []")
    case True
    with fin obtain description where
      "xs = [\<lparr>title = description, incident.status = overall, time = strftime now, new = False\<rparr>]"
      by (auto simp: and_then_Inr_iff)
    with assms(2) have "incident.status r = overall" by simp
    with overall_status_closed [OF ov] show ?thesis by simp
  next
    case False
    with fin have "xs = incidents" by simp
    with assms(2) zs act show ?thesis by auto
  qed
qed

lemma states_loop_appends:
  "states_loop kvs acc = Inr ys \<Longrightarrow>
     \<exists>zs. ys = acc @ zs \<and> (\<forall>r \<in> set zs. region.status r \<in> {''up'', ''slow''})"
proof (induction kvs arbitrary: acc)
  case Nil
  then show ?case by simp
next
  case (Cons kv kvs)
  obtain k v where kv: "kv = (k, v)" by (cases kv)
  from Cons.prems kv obtain flag where
    rec: "states_loop kvs
            (acc @ [\<lparr>uf = k, region.status = (if truthy flag then ''up'' else ''slow'')\<rparr>])
          = Inr ys"
    by (auto simp: and_then_Inr_iff)
  from Cons.IH [OF rec] show ?case by auto
qed

lemma states_loop_map:
  "\<forall>kv \<in> set kvs. \<exists>info. snd kv = JObj info \<Longrightarrow>
     states_loop kvs acc = Inr (acc @ map region_record kvs)"
proof (induction kvs arbitrary: acc)
  case Nil
  then show ?case by simp
next
  case (Cons kv kvs)
  obtain k info where kv: "kv = (k, JObj info)"
    using Cons.prems by (cases kv) auto
  have "states_loop (kv # kvs) acc = states_loop kvs (acc @ [region_record kv])"
    unfolding kv by (simp add: region_record_def split: option.splits)
  also have "\<dots> = Inr ((acc @ [region_record kv]) @ map region_record kvs)"
    using Cons.prems by (intro Cons.IH) simp
  finally show ?case by simp
qed

section \<open>Timestamps that cannot be parsed\<close>

text \<open>
  Whatever the regular expression matches is made of digits, the separators of
  the format and a blank, so a timestamp with any other character before its
  first dot raises \<^verbatim>\<open>ValueError\<close>.
\<close>

lemma match_alt_chars:
  "match_alt alt s = Some (mt, r) \<Longrightarrow> s = mt @ r \<and> set mt \<subseteq> \<Union>(set ` set alt)"
proof (induction alt s arbitrary: mt r rule: match_alt.induct)
  case (1 s)
  then show ?case by simp
next
  case (2 cls rest)
  then show ?case by simp
next
  case (3 cls rest c s)
  then show ?case by (auto split: if_splits option.splits) blast
qed

lemma first_some_map: "first_some (map f xs) = Some y \<Longrightarrow> \<exists>x \<in> set xs. f x = Some y"
proof (induction xs)
  case Nil
  then show ?case by simp
next
  case (Cons x xs)
  then show ?case by (cases "f x") auto
qed

lemma re_match_chars:
  "re_match gs s = Some (caps, r) \<Longrightarrow>
     \<exists>m. s = m @ r \<and> set m \<subseteq> \<Union>(set ` \<Union>(set ` \<Union>(set ` set gs)))"
proof (induction gs arbitrary: s caps r)
  case Nil
  then show ?case by simp
next
  case (Cons g gs)
  from Cons.prems obtain alt where alt: "alt \<in> set g"
    and step: "(case match_alt alt s of
         None \<Rightarrow> None
       | Some (mt, r1) \<Rightarrow>
           (case re_match gs r1 of None \<Rightarrow> None | Some (caps, r') \<Rightarrow> Some (mt # caps, r')))
       = Some (caps, r)"
    by (auto dest!: first_some_map)
  from step obtain mt r1 caps1 where
    m: "match_alt alt s = Some (mt, r1)" and rest: "re_match gs r1 = Some (caps1, r)"
    by (auto split: option.splits)
  from match_alt_chars [OF m] have 1: "s = mt @ r1" "set mt \<subseteq> \<Union>(set ` set alt)" by auto
  from Cons.IH [OF rest] obtain m1 where
    2: "r1 = m1 @ r" "set m1 \<subseteq> \<Union>(set ` \<Union>(set ` \<Union>(set ` set gs)))" by auto
  have "s = (mt @ m1) @ r" using 1 2 by simp
  moreover have "set (mt @ m1) \<subseteq> \<Union>(set ` \<Union>(set ` \<Union>(set ` set (g # gs))))"
    using 1 2 alt by auto
  ultimately show ?case by blast
qed

lemma format_regex_chars:
  "\<Union>(set ` \<Union>(set ` \<Union>(set ` set format_regex))) = set ''0123456789-Tt: ''"
  by (auto simp: format_regex_def re_Y_def re_m_def re_d_def re_H_def re_M_def re_S_def lit_def
      digits_def nonzero_def)

lemma strptime_chars: "strptime s = Inr dt \<Longrightarrow> set s \<subseteq> set ''0123456789-Tt: ''"
proof -
  assume "strptime s = Inr dt"
  then obtain caps where "re_match format_regex s = Some (caps, [])"
    by (auto simp: strptime_def split: option.splits list.splits if_splits prod.splits)
  from re_match_chars [OF this] show ?thesis
    unfolding format_regex_chars by auto
qed

lemma format_time_foreign_char:
  assumes "c \<in> set (split_dot_first s)" and "c \<notin> set ''0123456789-Tt: ''"
  shows "format_time (JStr s) = Inl ValueError"
proof (cases "strptime (split_dot_first s)")
  case (Inl e)
  then show ?thesis using strptime_ValueError [OF Inl] by simp
next
  case (Inr dt)
  from strptime_chars [OF Inr] assms show ?thesis by blast
qed

lemma zulu_without_fraction:
  "CHR ''.'' \<notin> set stamp \<Longrightarrow> format_time (JStr (stamp @ ''Z'')) = Inl ValueError"
proof -
  assume "CHR ''.'' \<notin> set stamp"
  then have "split_dot_first (stamp @ ''Z'') = stamp @ ''Z''"
    unfolding split_dot_first_def by (intro takeWhile_eq_all_conv [THEN iffD2]) auto
  then have "CHR ''Z'' \<in> set (split_dot_first (stamp @ ''Z''))" by simp
  then show ?thesis by (rule format_time_foreign_char) simp
qed

section \<open>Evaluations used by the examples\<close>

lemma strftime_new_year: "strftime new_year = ''01/01 00:05''"
  by code_simp

lemma strptime_example:
  "strptime ''2024-01-02T03:04:05'' =
     Inr \<lparr>year = 2024, month = 1, day = 2, hour = 3, minute = 4, second = 5\<rparr>"
  by code_simp

lemma format_time_fraction:
  "format_time (JStr (''2024-01-02T03:04:05.'' @ fraction)) = Inr ''02/01 03:04''"
proof -
  have "split_dot_first (''2024-01-02T03:04:05.'' @ fraction) = ''2024-01-02T03:04:05''"
    by (simp add: split_dot_first_def)
  moreover have
    "strftime \<lparr>year = 2024, month = 1, day = 2, hour = 3, minute = 4, second = 5\<rparr> = ''02/01 03:04''"
    by code_simp
  ultimately show ?thesis by (simp add: strptime_example)
qed

lemma format_time_example: "format_time (JStr ''2024-01-02T03:04:05.000Z'') = Inr ''02/01 03:04''"
  using format_time_fraction [of "''000Z''"] by simp

lemma outage_summary_incidents:
  "fetch_status_page_data (serve outage_summary) new_year url =
     Inr [\<lparr>title = JStr ''X down'', incident.status = ''investigating'',
           time = ''01/01 00:05'', new = False\<rparr>]"
  by (simp add: fetch_status_page_data_def serve_def summary_incidents_def outage_summary_def
      STATUS_MAP_def strftime_new_year)

lemma sefaz_body_regions:
  "fetch_sefaz_status (serve sefaz_body) = Inr [up ''SP'', slow ''AC'', slow ''RJ'', up ''BA'']"
  by (simp add: fetch_sefaz_status_def serve_def sefaz_body_def up_def slow_def)

lemma real_data_loop_pages:
  "real_data_loop w STATUS_PAGES [] =
     and_then (fetch_status_page_data (http_get w)
                 (clock w ''https://status.anymarket.com.br'') ''https://status.anymarket.com.br'')
       (\<lambda>a.
     and_then (fetch_status_page_data (http_get w)
                 (clock w ''https://status.pagbank.com.br'') ''https://status.pagbank.com.br'')
       (\<lambda>b.
     and_then (fetch_status_page_data (http_get w)
                 (clock w ''https://status.pagar.me'') ''https://status.pagar.me'')
       (\<lambda>c.
       Inr [(''AnyMarket'', a), (''PagSeguro'', b), (''Pagar.me'', c)])))"
  by (simp add: STATUS_PAGES_def)

lemma partly_down_runs:
  "main partly_down Map.empty =
     Inr [output_path \<mapsto>
       [(''REAL_DATA'', Providers
           [(''AnyMarket'', [\<lparr>title = JStr ''X down'', incident.status = ''investigating'',
                               time = ''01/01 00:05'', new = False\<rparr>]),
            (''PagSeguro'', [fetch_error_incident new_year]),
            (''Pagar.me'', [fetch_error_incident new_year])]),
        (''STATES_DATA'', Regions [up ''SP'', slow ''AC'', slow ''RJ'', up ''BA''])]]"
proof -
  have a: "fetch_status_page_data (http_get partly_down)
             (clock partly_down ''https://status.anymarket.com.br'')
             ''https://status.anymarket.com.br''
           = Inr [\<lparr>title = JStr ''X down'', incident.status = ''investigating'',
                   time = ''01/01 00:05'', new = False\<rparr>]"
    by (simp add: partly_down_def route_def fixed_clock_def fetch_status_page_data_def
        api_url_def summary_incidents_def outage_summary_def STATUS_MAP_def strftime_new_year)
  have b: "fetch_status_page_data (http_get partly_down)
             (clock partly_down ''https://status.pagbank.com.br'')
             ''https://status.pagbank.com.br''
           = Inr [fetch_error_incident new_year]"
    by (simp add: partly_down_def route_def fixed_clock_def fetch_status_page_data_def api_url_def)
  have c: "fetch_status_page_data (http_get partly_down)
             (clock partly_down ''https://status.pagar.me'') ''https://status.pagar.me''
           = Inr [fetch_error_incident new_year]"
    by (simp add: partly_down_def route_def fixed_clock_def fetch_status_page_data_def api_url_def)
  have s: "fetch_sefaz_status (http_get partly_down) =
             Inr [up ''SP'', slow ''AC'', slow ''RJ'', up ''BA'']"
    by (simp add: partly_down_def route_def fetch_sefaz_status_def sefaz_api_url_def
        sefaz_body_def up_def slow_def)
  show ?thesis
    unfolding main_def output_data_def real_data_loop_pages a b c s by simp
qed

section \<open>The status-page client: what it returns\<close>

text \<open>
  C1, as the code has it. A body without the key \<^verbatim>\<open>status\<close> is answered by a
  \<^verbatim>\<open>KeyError\<close> that leaves \<^verbatim>\<open>fetch_status_page_data\<close>, so the function does not
  return a list for every response.
\<close>

theorem fetch_status_page_data_empty_body_raises:
  "fetch_status_page_data (serve (JObj [])) new_year ''https://status.pagar.me'' =
     Inl (KeyError ''status'')"
  by (simp add: fetch_status_page_data_def serve_def summary_incidents_def)

text \<open>
  C1, amended: for every base URL, network and clock, \<^verbatim>\<open>fetch_status_page_data\<close>
  never returns the empty list, never lets a request error out, and returns a
  list of one record whenever the fetch itself fails. What can leave the
  function is an exception raised by the work on the body.
\<close>

theorem fetch_status_page_data_nonempty:
  "fetch_status_page_data net now url \<noteq> Inr []
   \<and> (\<forall>e. fetch_status_page_data net now url \<noteq> Inl (RequestException e))
   \<and> ((\<exists>e. net (api_url url) = Inl e) \<longrightarrow>
        (\<exists>x. fetch_status_page_data net now url = Inr [x]))"
proof (cases "net (api_url url)")
  case (Inl e)
  then show ?thesis by (simp add: fetch_status_page_data_def)
next
  case (Inr data)
  have "summary_incidents now data \<noteq> Inl (RequestException e)" for e
    using summary_incidents_local [of now data "RequestException e"] by auto
  with Inr show ?thesis
    by (simp add: fetch_status_page_data_def summary_incidents_nonempty)
qed

theorem fetch_status_page_data_nonempty_witness:
  "(\<exists>e. unreachable (api_url ''https://status.pagar.me'') = Inl e)
   \<and> (\<exists>x. fetch_status_page_data unreachable new_year ''https://status.pagar.me'' = Inr [x])
   \<and> fetch_status_page_data (serve outage_summary) new_year ''https://status.pagar.me'' \<noteq> Inr []"
proof -
  have h: "\<exists>e. unreachable (api_url ''https://status.pagar.me'') = Inl e"
    by (simp add: unreachable_def)
  from fetch_status_page_data_nonempty
         [where net = unreachable and now = new_year and url = "''https://status.pagar.me''"] h
  have "\<exists>x. fetch_status_page_data unreachable new_year ''https://status.pagar.me'' = Inr [x]"
    by blast
  moreover from fetch_status_page_data_nonempty
         [where net = "serve outage_summary" and now = new_year
            and url = "''https://status.pagar.me''"]
  have "fetch_status_page_data (serve outage_summary) new_year ''https://status.pagar.me'' \<noteq> Inr []"
    by blast
  ultimately show ?thesis using h by blast
qed

text \<open>
  C2: when the fetch fails with a request error (connection failure, timeout or
  error status), \<^verbatim>\<open>fetch_status_page_data\<close> returns exactly one record: the
  warning as title, status \<^verbatim>\<open>degraded\<close>, the current time as day/month
  hour:minute, and the flag \<^verbatim>\<open>new\<close> set.
\<close>

theorem fetch_failure_synthetic_incident:
  "net (api_url url) = Inl e \<Longrightarrow>
   fetch_status_page_data net now url =
     Inr [\<lparr>title = JStr ''Erro ao carregar status. Dados podem estar desatualizados.'',
           incident.status = ''degraded'',
           time = pad2 (day now) @ ''/'' @ pad2 (month now) @ '' '' @
                  pad2 (hour now) @ '':'' @ pad2 (minute now),
           new = True\<rparr>]"
  by (simp add: fetch_status_page_data_def fetch_error_incident_def strftime_def)

theorem fetch_failure_synthetic_incident_witness:
  "unreachable (api_url ''https://status.anymarket.com.br'') = Inl ConnectionError
   \<and> fetch_status_page_data unreachable new_year ''https://status.anymarket.com.br'' =
     Inr [\<lparr>title = JStr ''Erro ao carregar status. Dados podem estar desatualizados.'',
           incident.status = ''degraded'', time = ''01/01 00:05'', new = True\<rparr>]"
proof -
  have h: "unreachable (api_url ''https://status.anymarket.com.br'') = Inl ConnectionError"
    by (simp add: unreachable_def)
  have t: "pad2 (day new_year) @ ''/'' @ pad2 (month new_year) @ '' '' @
           pad2 (hour new_year) @ '':'' @ pad2 (minute new_year) = ''01/01 00:05''"
    by code_simp
  show ?thesis
    using h fetch_failure_synthetic_incident
      [where net = unreachable and url = "''https://status.anymarket.com.br''"
         and now = new_year, OF h]
    unfolding t by simp
qed

text \<open>
  C3: when the body has its overall status and description, and no entry of the
  incident list and of the maintenance list passes its filter,
  \<^verbatim>\<open>fetch_status_page_data\<close> returns exactly one record: the description as
  title, the indicator looked up in \<^verbatim>\<open>STATUS_MAP\<close> with \<^verbatim>\<open>operational\<close> for an
  indicator the table does not have, the current time, and the flag \<^verbatim>\<open>new\<close>
  cleared.
\<close>

theorem no_incident_synthetic_incident:
  assumes "net (api_url url) = Inr data"
    and "getitem data ''status'' = Inr st"
    and "getitem st ''indicator'' = Inr indicator"
    and "STATUS_MAP_get indicator ''operational'' = Inr overall"
    and "getitem st ''description'' = Inr description"
    and "get_default data ''incidents'' (JArr []) = Inr (JArr incs)"
    and "\<forall>x \<in> set incs. \<exists>s. getitem x ''status'' = Inr s \<and> s \<notin> set active_statuses"
    and "get_default data ''scheduled_maintenances'' (JArr []) = Inr (JArr ms)"
    and "\<forall>x \<in> set ms. \<exists>s. getitem x ''status'' = Inr s \<and> s \<notin> set maintenance_statuses"
  shows "fetch_status_page_data net now url =
           Inr [\<lparr>title = description, incident.status = overall,
                 time = strftime now, new = False\<rparr>]
         \<and> overall =
             (case indicator of
                JStr s \<Rightarrow> (case map_of STATUS_MAP s of None \<Rightarrow> ''operational'' | Some v \<Rightarrow> v)
              | _ \<Rightarrow> ''operational'')"
proof -
  have a: "incidents_loop incs [] = Inr []"
    using assms(7) by (rule incidents_loop_none_kept)
  have m: "maintenances_loop ms [] = Inr []"
    using assms(9) by (rule maintenances_loop_none_kept)
  have "summary_incidents now data =
          Inr [\<lparr>title = description, incident.status = overall,
                time = strftime now, new = False\<rparr>]"
    unfolding summary_incidents_def using assms(2-6,8) a m by simp
  moreover have "overall =
      (case indicator of
         JStr s \<Rightarrow> (case map_of STATUS_MAP s of None \<Rightarrow> ''operational'' | Some v \<Rightarrow> v)
       | _ \<Rightarrow> ''operational'')"
    using assms(4) by (cases indicator) auto
  ultimately show ?thesis using assms(1) by (simp add: fetch_status_page_data_def)
qed

theorem no_incident_synthetic_incident_witness:
  "fetch_status_page_data (serve outage_summary) new_year ''https://status.pagar.me'' =
     Inr [\<lparr>title = JStr ''X down'', incident.status = ''investigating'',
           time = ''01/01 00:05'', new = False\<rparr>]"
proof -
  let ?st = "JObj [(''indicator'', JStr ''major_outage''), (''description'', JStr ''X down'')]"
  have 1: "serve outage_summary (api_url ''https://status.pagar.me'') = Inr outage_summary"
    by (simp add: serve_def)
  have 2: "getitem outage_summary ''status'' = Inr ?st"
    by (simp add: outage_summary_def)
  have 3: "getitem ?st ''indicator'' = Inr (JStr ''major_outage'')" by simp
  have 4: "STATUS_MAP_get (JStr ''major_outage'') ''operational'' = Inr ''investigating''"
    by (simp add: STATUS_MAP_def)
  have 5: "getitem ?st ''description'' = Inr (JStr ''X down'')" by simp
  have 6: "get_default outage_summary ''incidents'' (JArr []) = Inr (JArr [])"
    by (simp add: outage_summary_def)
  have 7: "\<forall>x \<in> set []. \<exists>s. getitem x ''status'' = Inr s \<and> s \<notin> set active_statuses"
    by simp
  have 8: "get_default outage_summary ''scheduled_maintenances'' (JArr []) = Inr (JArr [])"
    by (simp add: outage_summary_def)
  have 9: "\<forall>x \<in> set []. \<exists>s. getitem x ''status'' = Inr s \<and> s \<notin> set maintenance_statuses"
    by simp
  from no_incident_synthetic_incident
         [where net = "serve outage_summary" and url = "''https://status.pagar.me''"
            and now = new_year, OF 1 2 3 4 5 6 7 8 9]
  show ?thesis unfolding strftime_new_year by simp
qed

section \<open>The regional client and the closed sets of statuses\<close>

text \<open>
  C4: when the regional fetch fails with a request error, \<^verbatim>\<open>fetch_sefaz_status\<close>
  returns the fixed list: 27 records with 27 different codes, 26 of them \<^verbatim>\<open>up\<close>
  and one \<^verbatim>\<open>slow\<close>.
\<close>

theorem sefaz_fallback_on_failure:
  "net sefaz_api_url = Inl e \<Longrightarrow>
     fetch_sefaz_status net = Inr sefaz_fallback
     \<and> length sefaz_fallback = 27
     \<and> length (filter (\<lambda>r. region.status r = ''up'') sefaz_fallback) = 26
     \<and> length (filter (\<lambda>r. region.status r = ''slow'') sefaz_fallback) = 1
     \<and> distinct (map uf sefaz_fallback)"
  by (simp add: fetch_sefaz_status_def sefaz_fallback_def up_def slow_def)

theorem sefaz_fallback_on_failure_witness:
  "unreachable sefaz_api_url = Inl ConnectionError
     \<and> fetch_sefaz_status unreachable = Inr sefaz_fallback
     \<and> length sefaz_fallback = 27
     \<and> filter (\<lambda>r. region.status r = ''slow'') sefaz_fallback = [slow ''CE'']"
proof -
  have h: "unreachable sefaz_api_url = Inl ConnectionError"
    by (simp add: unreachable_def)
  have s: "filter (\<lambda>r. region.status r = ''slow'') sefaz_fallback = [slow ''CE'']"
    by (simp add: sefaz_fallback_def up_def slow_def)
  from sefaz_fallback_on_failure [where net = unreachable, OF h] h s show ?thesis by simp
qed

text \<open>
  C5: every record that \<^verbatim>\<open>fetch_status_page_data\<close> returns, on any path, has its
  status among \<^verbatim>\<open>operational\<close>, \<^verbatim>\<open>degraded\<close>, \<^verbatim>\<open>investigating\<close> and \<^verbatim>\<open>scheduled\<close>,
  and every record that \<^verbatim>\<open>fetch_sefaz_status\<close> returns, on any path, has its status
  among \<^verbatim>\<open>up\<close> and \<^verbatim>\<open>slow\<close>.
\<close>

theorem statuses_closed:
  "(\<forall>xs. fetch_status_page_data net now url = Inr xs \<longrightarrow>
      (\<forall>r \<in> set xs.
         incident.status r \<in> {''operational'', ''degraded'', ''investigating'', ''scheduled''}))
   \<and> (\<forall>rs. fetch_sefaz_status net = Inr rs \<longrightarrow>
      (\<forall>r \<in> set rs. region.status r \<in> {''up'', ''slow''}))"
proof (intro conjI allI impI ballI)
  fix xs r
  assume res: "fetch_status_page_data net now url = Inr xs" and r: "r \<in> set xs"
  show "incident.status r \<in> {''operational'', ''degraded'', ''investigating'', ''scheduled''}"
  proof (cases "net (api_url url)")
    case (Inl e)
    with res r show ?thesis
      by (auto simp: fetch_status_page_data_def fetch_error_incident_def)
  next
    case (Inr data)
    with res have "summary_incidents now data = Inr xs"
      by (simp add: fetch_status_page_data_def)
    from summary_incidents_closed [OF this r] show ?thesis .
  qed
next
  fix rs r
  assume res: "fetch_sefaz_status net = Inr rs" and r: "r \<in> set rs"
  show "region.status r \<in> {''up'', ''slow''}"
  proof (cases "net sefaz_api_url")
    case (Inl e)
    with res r show ?thesis
      by (auto simp: fetch_sefaz_status_def sefaz_fallback_def up_def slow_def)
  next
    case (Inr data)
    with res obtain kvs where "states_loop kvs [] = Inr rs"
      by (auto simp: fetch_sefaz_status_def and_then_Inr_iff)
    from states_loop_appends [OF this] r show ?thesis by auto
  qed
qed

theorem statuses_closed_witness:
  "fetch_status_page_data (route [(''https://status.pagar.me/api/v2/summary.json'', Inr outage_summary)])
       new_year ''https://status.pagar.me'' =
     Inr [\<lparr>title = JStr ''X down'', incident.status = ''investigating'',
           time = ''01/01 00:05'', new = False\<rparr>]
   \<and> ''investigating'' \<in> {''operational'', ''degraded'', ''investigating'', ''scheduled''}
   \<and> fetch_sefaz_status (route [(''https://status.pagar.me/api/v2/summary.json'', Inr outage_summary)])
       = Inr sefaz_fallback
   \<and> list_all (\<lambda>r. region.status r \<in> {''up'', ''slow''}) sefaz_fallback"
proof -
  let ?net = "route [(''https://status.pagar.me/api/v2/summary.json'', Inr outage_summary)]"
  let ?x = "\<lparr>title = JStr ''X down'', incident.status = ''investigating'',
           time = ''01/01 00:05'', new = False\<rparr>"
  have a: "fetch_status_page_data ?net new_year ''https://status.pagar.me'' = Inr [?x]"
    by (simp add: route_def fetch_status_page_data_def api_url_def summary_incidents_def
        outage_summary_def STATUS_MAP_def strftime_new_year)
  have b: "fetch_sefaz_status ?net = Inr sefaz_fallback"
    by (simp add: route_def fetch_sefaz_status_def sefaz_api_url_def)
  from statuses_closed [where net = ?net and now = new_year and url = "''https://status.pagar.me''"]
    a b
  have "incident.status ?x \<in> {''operational'', ''degraded'', ''investigating'', ''scheduled''}"
    and "\<forall>r \<in> set sefaz_fallback. region.status r \<in> {''up'', ''slow''}"
    by auto
  with a b show ?thesis by (simp add: list_all_iff)
qed

text \<open>
  C7: on a successful regional fetch whose body is an object of objects,
  \<^verbatim>\<open>fetch_sefaz_status\<close> returns one record per key, in the order of the body, with
  \<^verbatim>\<open>up\<close> for a truthy flag and \<^verbatim>\<open>slow\<close> for a falsy or missing one.
\<close>

theorem sefaz_one_record_per_key:
  assumes "net sefaz_api_url = Inr (JObj kvs)"
    and "\<forall>kv \<in> set kvs. \<exists>info. snd kv = JObj info"
  shows "fetch_sefaz_status net = Inr (map region_record kvs)"
  using assms(1) states_loop_map [OF assms(2), of "[]"]
  by (simp add: fetch_sefaz_status_def)

theorem sefaz_one_record_per_key_witness:
  "fetch_sefaz_status (serve sefaz_body) = Inr [up ''SP'', slow ''AC'', slow ''RJ'', up ''BA'']"
proof -
  let ?kvs = "[(''SP'', JObj [(''status'', JBool True)]),
               (''AC'', JObj [(''status'', JBool False)]),
               (''RJ'', JObj []),
               (''BA'', JObj [(''status'', JInt 1)])]"
  have 1: "serve sefaz_body sefaz_api_url = Inr (JObj ?kvs)"
    by (simp add: serve_def sefaz_body_def)
  have 2: "\<forall>kv \<in> set ?kvs. \<exists>info. snd kv = JObj info" by simp
  have 3: "map region_record ?kvs = [up ''SP'', slow ''AC'', slow ''RJ'', up ''BA'']"
    by (simp add: region_record_def up_def slow_def)
  from sefaz_one_record_per_key [where net = "serve sefaz_body", OF 1 2]
  show ?thesis unfolding 3 .
qed

section \<open>Incidents that are kept\<close>

text \<open>
  C6: an incident with lifecycle status \<^verbatim>\<open>identified\<close> whose \<^verbatim>\<open>created_at\<close> is
  \<^verbatim>\<open>2024-01-02T03:04:05\<close> followed by a dot and any fraction (\<^verbatim>\<open>.000Z\<close> in the
  spec's example) is kept, and its record carries the time \<^verbatim>\<open>02/01 03:04\<close>: the
  text from the first dot on is dropped and the rest is written as day/month
  hour:minute.
\<close>

theorem identified_incident_time:
  assumes "getitem incident ''status'' = Inr (JStr ''identified'')"
    and "getitem incident ''name'' = Inr name"
    and "getitem incident ''created_at'' = Inr (JStr (''2024-01-02T03:04:05.'' @ fraction))"
  shows "incidents_loop (incident # rest) incidents =
           incidents_loop rest
             (incidents @ [\<lparr>title = name, incident.status = ''investigating'',
                             time = ''02/01 03:04'', new = True\<rparr>])"
  using assms
  by (simp add: active_statuses_def STATUS_MAP_def
      format_time_fraction [unfolded append_Cons append_Nil] del: format_time.simps)

theorem identified_incident_time_witness:
  "fetch_status_page_data (serve (identified_summary (JStr ''Checkout errors''))) new_year
       ''https://status.anymarket.com.br'' =
     Inr [\<lparr>title = JStr ''Checkout errors'', incident.status = ''investigating'',
           time = ''02/01 03:04'', new = True\<rparr>]"
proof -
  let ?inc = "JObj [(''name'', JStr ''Checkout errors''), (''status'', JStr ''identified''),
                    (''created_at'', JStr ''2024-01-02T03:04:05.000Z'')]"
  have 1: "getitem ?inc ''status'' = Inr (JStr ''identified'')" by simp
  have 2: "getitem ?inc ''name'' = Inr (JStr ''Checkout errors'')" by simp
  have 3: "getitem ?inc ''created_at'' = Inr (JStr (''2024-01-02T03:04:05.'' @ ''000Z''))" by simp
  have step: "incidents_loop [?inc] [] =
      Inr [\<lparr>title = JStr ''Checkout errors'', incident.status = ''investigating'',
           time = ''02/01 03:04'', new = True\<rparr>]"
    using identified_incident_time [OF 1 2 3, of "[]" "[]"] by simp
  show ?thesis
    by (simp add: fetch_status_page_data_def serve_def summary_incidents_def
        identified_summary_def step del: incidents_loop.simps)
qed

text \<open>
  C9: every record that the loop over the incident list appends has status
  \<^verbatim>\<open>investigating\<close>: of the four lifecycle statuses that pass the filter,
  \<^verbatim>\<open>identified\<close>, \<^verbatim>\<open>monitoring\<close> and \<^verbatim>\<open>in_progress\<close> are not keys of \<^verbatim>\<open>STATUS_MAP\<close>
  and take the default, and \<^verbatim>\<open>investigating\<close> is mapped to itself.
\<close>

theorem kept_incidents_investigating:
  "(incidents_loop xs acc = Inr ys \<longrightarrow>
      (\<exists>zs. ys = acc @ zs \<and> (\<forall>r \<in> set zs. incident.status r = ''investigating'')))
   \<and> map_of STATUS_MAP ''identified'' = None
   \<and> map_of STATUS_MAP ''monitoring'' = None
   \<and> map_of STATUS_MAP ''in_progress'' = None
   \<and> map_of STATUS_MAP ''investigating'' = Some ''investigating''"
proof -
  have "\<exists>zs. ys = acc @ zs \<and> (\<forall>r \<in> set zs. incident.status r = ''investigating'')"
    if "incidents_loop xs acc = Inr ys"
    using incidents_loop_appends [OF that] by auto
  then show ?thesis by (simp add: STATUS_MAP_def)
qed

theorem kept_incidents_investigating_witness:
  "incidents_loop mixed_incidents [] =
     Inr [\<lparr>title = JStr ''Checkout slow'', incident.status = ''investigating'',
            time = ''02/01 03:04'', new = True\<rparr>,
          \<lparr>title = JStr ''Webhook delays'', incident.status = ''investigating'',
            time = ''02/01 03:04'', new = True\<rparr>]
   \<and> list_all (\<lambda>r. incident.status r = ''investigating'')
         [\<lparr>title = JStr ''Checkout slow'', incident.status = ''investigating'',
            time = ''02/01 03:04'', new = True\<rparr>,
          \<lparr>title = JStr ''Webhook delays'', incident.status = ''investigating'',
            time = ''02/01 03:04'', new = True\<rparr>]"
proof -
  let ?ys = "[\<lparr>title = JStr ''Checkout slow'', incident.status = ''investigating'',
            time = ''02/01 03:04'', new = True\<rparr>,
          \<lparr>title = JStr ''Webhook delays'', incident.status = ''investigating'',
            time = ''02/01 03:04'', new = True\<rparr>]"
  have h: "incidents_loop mixed_incidents [] = Inr ?ys"
    by (simp add: mixed_incidents_def active_statuses_def STATUS_MAP_def format_time_example
        del: format_time.simps)
  from kept_incidents_investigating [of mixed_incidents "[]" ?ys] h
  have "list_all (\<lambda>r. incident.status r = ''investigating'') ?ys"
    unfolding list_all_iff by auto
  with h show ?thesis by blast
qed

text \<open>
  C10: a well-formed summary with a kept incident whose \<^verbatim>\<open>created_at\<close>, or with a
  kept maintenance whose \<^verbatim>\<open>scheduled_for\<close>, has no dot and ends in \<^verbatim>\<open>Z\<close> (such as
  \<^verbatim>\<open>2024-01-02T03:04:05Z\<close>) makes the parse of the timestamp fail, and the
  \<^verbatim>\<open>ValueError\<close> leaves \<^verbatim>\<open>fetch_status_page_data\<close>, whatever the clock and the URL.
\<close>

theorem timestamp_without_fraction_escapes:
  assumes "CHR ''.'' \<notin> set stamp"
  shows "fetch_status_page_data (serve (incident_at (stamp @ ''Z''))) now url = Inl ValueError
         \<and> fetch_status_page_data (serve (maintenance_at (stamp @ ''Z''))) now url =
             Inl ValueError"
  using zulu_without_fraction [OF assms]
  by (simp add: fetch_status_page_data_def serve_def summary_incidents_def
      incident_at_def maintenance_at_def active_statuses_def maintenance_statuses_def
      STATUS_MAP_def del: format_time.simps)

theorem timestamp_without_fraction_escapes_witness:
  "fetch_status_page_data (serve (incident_at ''2024-01-02T03:04:05Z'')) new_year
       ''https://status.anymarket.com.br'' = Inl ValueError
   \<and> fetch_status_page_data (serve (maintenance_at ''2024-01-02T03:04:05Z'')) new_year
       ''https://status.anymarket.com.br'' = Inl ValueError"
proof -
  have h: "CHR ''.'' \<notin> set ''2024-01-02T03:04:05''" by simp
  from timestamp_without_fraction_escapes
         [OF h, of new_year "''https://status.anymarket.com.br''"]
  show ?thesis by simp
qed

section \<open>The snapshot\<close>

text \<open>
  C8: whenever \<^verbatim>\<open>main\<close> writes, the document under the output path has exactly
  the keys \<^verbatim>\<open>REAL_DATA\<close> and \<^verbatim>\<open>STATES_DATA\<close>, in this order; \<^verbatim>\<open>REAL_DATA\<close> has one
  entry per name of \<^verbatim>\<open>STATUS_PAGES\<close>, holding what \<^verbatim>\<open>fetch_status_page_data\<close>
  returned for that provider, and \<^verbatim>\<open>STATES_DATA\<close> holds what \<^verbatim>\<open>fetch_sefaz_status\<close>
  returned. And \<^verbatim>\<open>main\<close> does write whenever the four calls return, whether their
  fetches succeeded or failed.
\<close>

theorem main_snapshot_keys:
  "(main w files = Inr files' \<longrightarrow>
      (\<exists>real_data states_data.
         files' = files(output_path \<mapsto>
           [(''REAL_DATA'', Providers real_data), (''STATES_DATA'', Regions states_data)])
         \<and> map fst real_data = map fst STATUS_PAGES
         \<and> (\<forall>p \<in> set STATUS_PAGES.
               fetch_status_page_data (http_get w) (clock w (snd p)) (snd p) =
                 Inr (the (map_of real_data (fst p))))
         \<and> fetch_sefaz_status (http_get w) = Inr states_data))
   \<and> ((\<forall>p \<in> set STATUS_PAGES.
          \<exists>incidents. fetch_status_page_data (http_get w) (clock w (snd p)) (snd p) = Inr incidents)
        \<and> (\<exists>states_data. fetch_sefaz_status (http_get w) = Inr states_data)
       \<longrightarrow> (\<exists>written. main w files = Inr written))"
proof (intro conjI impI)
  assume "main w files = Inr files'"
  then obtain a b c states_data where
    "fetch_status_page_data (http_get w) (clock w ''https://status.anymarket.com.br'')
       ''https://status.anymarket.com.br'' = Inr a"
    "fetch_status_page_data (http_get w) (clock w ''https://status.pagbank.com.br'')
       ''https://status.pagbank.com.br'' = Inr b"
    "fetch_status_page_data (http_get w) (clock w ''https://status.pagar.me'')
       ''https://status.pagar.me'' = Inr c"
    "fetch_sefaz_status (http_get w) = Inr states_data"
    "files' = files(output_path \<mapsto>
       [(''REAL_DATA'', Providers [(''AnyMarket'', a), (''PagSeguro'', b), (''Pagar.me'', c)]),
        (''STATES_DATA'', Regions states_data)])"
    unfolding main_def output_data_def real_data_loop_pages
    by (auto simp: and_then_Inr_iff)
  then show "\<exists>real_data states_data.
         files' = files(output_path \<mapsto>
           [(''REAL_DATA'', Providers real_data), (''STATES_DATA'', Regions states_data)])
         \<and> map fst real_data = map fst STATUS_PAGES
         \<and> (\<forall>p \<in> set STATUS_PAGES.
               fetch_status_page_data (http_get w) (clock w (snd p)) (snd p) =
                 Inr (the (map_of real_data (fst p))))
         \<and> fetch_sefaz_status (http_get w) = Inr states_data"
    by (intro exI [of _ "[(''AnyMarket'', a), (''PagSeguro'', b), (''Pagar.me'', c)]"]
        exI [of _ states_data]) (simp add: STATUS_PAGES_def)
next
  assume "(\<forall>p \<in> set STATUS_PAGES.
          \<exists>incidents. fetch_status_page_data (http_get w) (clock w (snd p)) (snd p) = Inr incidents)
        \<and> (\<exists>states_data. fetch_sefaz_status (http_get w) = Inr states_data)"
  then show "\<exists>written. main w files = Inr written"
    unfolding main_def output_data_def real_data_loop_pages
    by (auto simp: STATUS_PAGES_def)
qed

theorem main_snapshot_keys_witness:
  "\<exists>real_data states_data.
     main partly_down Map.empty =
       Inr [output_path \<mapsto>
              [(''REAL_DATA'', Providers real_data), (''STATES_DATA'', Regions states_data)]]
     \<and> map fst real_data = [''AnyMarket'', ''PagSeguro'', ''Pagar.me'']"
proof -
  from partly_down_runs obtain written where w: "main partly_down Map.empty = Inr written"
    by blast
  from main_snapshot_keys [of partly_down Map.empty written] w show ?thesis
    by (auto simp: STATUS_PAGES_def)
qed

end
